theory Spec2Isabelle
  imports Main
begin

section \<open>The player server of src/app.js\<close>

text \<open>
  src/app.js holds two revisions of the server. The second one (from line 286 on) adds
  the session middleware, the profile columns and the routes under \<open>isAuthenticated\<close>;
  it is the revision embedded here, route by route.

  What is outside the program is kept as small as the handlers allow:
  \<^item> bcryptjs and the \<open>isEmail\<close> validator are parameters (\<open>env\<close>): the handlers only
    call them;
  \<^item> the database is the table \<open>players\<close> held in the state, with the columns that
    \<open>sequelize.define\<close> declares and \<open>sync()\<close> creates: an \<open>INTEGER\<close> holds 32 bits and a
    \<open>STRING(n)\<close> at most \<open>n\<close> characters (one \<open>char\<close> of the model is one character). A
    statement that the server rejects, or that is sent while the connection is down
    (\<open>db_up\<close> is false), throws and writes nothing; every handler catches that and
    answers with 500;
  \<^item> the session store of express-session is a map from session ids to the value of
    \<open>req.session.user\<close>; with \<open>saveUninitialized: false\<close> only a session that login has
    written is ever stored. A new id is drawn from a counter;
  \<^item> a body field that a handler tests or defaults (\<open>!username\<close>, \<open>coins || 0\<close>,
    \<open>email || player.email\<close>) is optional; a field that is handed on untested is taken
    as present, except \<open>coins\<close> and \<open>unlockedLevels\<close> of the two raw updates, whose
    absence Sequelize rejects. Every field has the JSON type of the column it is written
    to, and numbers are integers.
\<close>

subsection \<open>JSON values and responses\<close>

datatype json =
    JNull
  | JBool bool
  | JNum int
  | JStr string
  | JArr "json list"
  | JObj "(string \<times> json) list"

text \<open>The value of the field \<open>k\<close> of a JSON object.\<close>

definition json_field :: "string \<Rightarrow> json \<Rightarrow> json option" where
  "json_field k j = (case j of JObj kvs \<Rightarrow> map_of kvs k | _ \<Rightarrow> None)"

text \<open>Whether a field named \<open>k\<close> occurs in a JSON value, at any depth.\<close>

fun has_field :: "string \<Rightarrow> json \<Rightarrow> bool" where
  "has_field k (JArr xs) = list_ex (has_field k) xs"
| "has_field k (JObj kvs) = list_ex (\<lambda>kv. fst kv = k \<or> has_field k (snd kv)) kvs"
| "has_field k _ = False"

record response =
  status :: nat
  body :: json
  set_cookie :: "nat option"

text \<open>\<open>res.status(code).json(b)\<close>; \<open>res.json(b)\<close> is the same with status 200.\<close>

definition json_res :: "nat \<Rightarrow> json \<Rightarrow> response" where
  "json_res code b = \<lparr>status = code, body = b, set_cookie = None\<rparr>"

definition error_body :: "string \<Rightarrow> json" where
  "error_body msg = JObj [(''error'', JStr msg)]"

definition success_message :: "string \<Rightarrow> json" where
  "success_message msg = JObj [(''success'', JBool True), (''message'', JStr msg)]"

subsection \<open>The players table\<close>

text \<open>
  One row of the table: the attributes of \<open>sequelize.define("players", ...)\<close> in their
  order. The table has no other column; in particular it has no \<open>unlocked_levels\<close>.
\<close>

record player =
  player_id :: int
  username :: string
  email :: "string option"
  display_name :: "string option"
  theme :: string
  avatar :: "string option"
  points :: int
  coins :: int
  networking_completed :: bool
  programming_completed :: bool
  systemunit_completed :: bool
  networking_hard_perfect :: bool
  programming_game_unlocked :: bool
  progress :: "string option"
  password :: string

definition json_opt :: "string option \<Rightarrow> json" where
  "json_opt v = (case v of None \<Rightarrow> JNull | Some s \<Rightarrow> JStr s)"

text \<open>The JSON of a model instance read with all attributes.\<close>

definition toJSON :: "player \<Rightarrow> json" where
  "toJSON p = JObj
     [(''id'', JNum (player_id p)),
      (''username'', JStr (username p)),
      (''email'', json_opt (email p)),
      (''display_name'', json_opt (display_name p)),
      (''theme'', JStr (theme p)),
      (''avatar'', json_opt (avatar p)),
      (''points'', JNum (points p)),
      (''coins'', JNum (coins p)),
      (''networking_completed'', JBool (networking_completed p)),
      (''programming_completed'', JBool (programming_completed p)),
      (''systemunit_completed'', JBool (systemunit_completed p)),
      (''networking_hard_perfect'', JBool (networking_hard_perfect p)),
      (''programming_game_unlocked'', JBool (programming_game_unlocked p)),
      (''progress'', json_opt (progress p)),
      (''password'', JStr (password p))]"

text \<open>
  The JSON of an instance read with
  \<open>attributes: ['id', 'username', 'email', 'display_name', 'theme', 'avatar', 'points', 'coins']\<close>.
\<close>

definition toJSON_profile :: "player \<Rightarrow> json" where
  "toJSON_profile p = JObj
     [(''id'', JNum (player_id p)),
      (''username'', JStr (username p)),
      (''email'', json_opt (email p)),
      (''display_name'', json_opt (display_name p)),
      (''theme'', JStr (theme p)),
      (''avatar'', json_opt (avatar p)),
      (''points'', JNum (points p)),
      (''coins'', JNum (coins p))]"

subsection \<open>State and environment\<close>

type_synonym session_user = "int \<times> string"

record state =
  players :: "player list"
  next_id :: int
  sessions :: "nat \<rightharpoonup> session_user"
  next_sid :: nat

record env =
  bcrypt_hash :: "string \<Rightarrow> string"
  bcrypt_compare :: "string \<Rightarrow> string \<Rightarrow> bool"
  isEmail :: "string \<Rightarrow> bool"
  db_up :: bool

datatype exn =
    SequelizeConnectionError
  | SequelizeValidationError
  | SequelizeUniqueConstraintError
  | SequelizeDatabaseError
  | MissingReplacement

text \<open>\<open>await\<close> on a call that may throw: the rest of the handler runs on its value.\<close>

definition await :: "exn + 'a \<Rightarrow> ('a \<Rightarrow> exn + 'b) \<Rightarrow> exn + 'b" where
  "await r k = (case r of Inl err \<Rightarrow> Inl err | Inr v \<Rightarrow> k v)"

text \<open>
  \<open>try { ... } catch (err) { res.status(500).json(b) }\<close>; \<open>st\<close> is the state at the catch.
  No handler changes the table or the session store before its last call that can
  throw, so but for the sequence of ids, which a failed insert advances, this is the
  state before the request.
\<close>

definition try_catch :: "state \<Rightarrow> json \<Rightarrow> exn + (state \<times> response) \<Rightarrow> state \<times> response" where
  "try_catch st b r = (case r of Inl err \<Rightarrow> (st, json_res 500 b) | Inr v \<Rightarrow> v)"

text \<open>JavaScript truthiness of an optional string, \<open>a || b\<close> and \<open>n || 0\<close>.\<close>

definition truthy :: "string option \<Rightarrow> bool" where
  "truthy v = (case v of None \<Rightarrow> False | Some s \<Rightarrow> s \<noteq> [])"

definition js_or :: "string option \<Rightarrow> string option \<Rightarrow> string option" where
  "js_or a b = (if truthy a then a else b)"

definition js_or_str :: "string option \<Rightarrow> string \<Rightarrow> string" where
  "js_or_str a b = (case a of None \<Rightarrow> b | Some s \<Rightarrow> if s \<noteq> [] then s else b)"

definition or_zero :: "int option \<Rightarrow> int" where
  "or_zero v = (case v of None \<Rightarrow> 0 | Some n \<Rightarrow> if n \<noteq> 0 then n else 0)"

subsection \<open>Database calls\<close>

text \<open>A statement sent to the server: it throws when the connection is down.\<close>

definition query :: "env \<Rightarrow> 'a \<Rightarrow> exn + 'a" where
  "query e v = (if db_up e then Inr v else Inl SequelizeConnectionError)"

text \<open>
  The columns. An \<open>INTEGER\<close> takes a value of 32 bits. A \<open>STRING(n)\<close> takes a string of at
  most \<open>n\<close> characters; of a longer one whose excess is all spaces it takes the first
  \<open>n\<close>. Any other value makes the statement fail.
\<close>

definition int4 :: "int \<Rightarrow> bool" where
  "int4 n = (- 2147483648 \<le> n \<and> n \<le> 2147483647)"

definition integer_column :: "int \<Rightarrow> exn + int" where
  "integer_column n = (if int4 n then Inr n else Inl SequelizeDatabaseError)"

definition varchar_column :: "nat \<Rightarrow> string \<Rightarrow> exn + string" where
  "varchar_column n s =
     (if length s \<le> n then Inr s
      else if list_all (\<lambda>c. c = CHR '' '') (drop n s) then Inr (take n s)
      else Inl SequelizeDatabaseError)"

definition varchar_column_opt :: "nat \<Rightarrow> string option \<Rightarrow> exn + string option" where
  "varchar_column_opt n v =
     (case v of None \<Rightarrow> Inr None
      | Some s \<Rightarrow> await (varchar_column n s) (\<lambda>s'. Inr (Some s')))"

text \<open>
  \<open>save\<close> and \<open>update\<close> of an instance send the attributes whose value has changed, and
  only those: \<open>old\<close> is the value read, \<open>new\<close> the value set, and the result is the value
  the column then holds.
\<close>

definition changed_integer :: "int \<Rightarrow> int \<Rightarrow> exn + int" where
  "changed_integer old new = (if new = old then Inr old else integer_column new)"

definition changed_varchar :: "nat \<Rightarrow> string \<Rightarrow> string \<Rightarrow> exn + string" where
  "changed_varchar n old new = (if new = old then Inr old else varchar_column n new)"

definition changed_varchar_opt :: "nat \<Rightarrow> string option \<Rightarrow> string option \<Rightarrow> exn + string option" where
  "changed_varchar_opt n old new = (if new = old then Inr old else varchar_column_opt n new)"

definition findAll :: "env \<Rightarrow> state \<Rightarrow> exn + player list" where
  "findAll e st = query e (players st)"

definition findOne_username :: "env \<Rightarrow> state \<Rightarrow> string \<Rightarrow> exn + player option" where
  "findOne_username e st u = query e (find (\<lambda>p. username p = u) (players st))"

definition findOne_id :: "env \<Rightarrow> state \<Rightarrow> int \<Rightarrow> exn + player option" where
  "findOne_id e st i = query e (find (\<lambda>p. player_id p = i) (players st))"

text \<open>
  The validation Sequelize runs before it writes \<open>email\<close>: \<open>validate: { isEmail: true }\<close>
  is checked on a value that is not null; on an update, only when the value has changed.
\<close>

definition validate_email :: "env \<Rightarrow> string option \<Rightarrow> exn + unit" where
  "validate_email e v =
     (case v of None \<Rightarrow> Inr ()
      | Some m \<Rightarrow> if isEmail e m then Inr () else Inl SequelizeValidationError)"

definition validate_changed_email :: "env \<Rightarrow> string option \<Rightarrow> string option \<Rightarrow> exn + unit" where
  "validate_changed_email e old new = (if new = old then Inr () else validate_email e new)"

text \<open>
  \<open>Player.create({ username, password, email })\<close>: the other attributes take their
  defaults, \<open>id\<close> is the next value of the sequence, and \<open>unique: true\<close> on \<open>username\<close>
  makes the insert of a second row with the same name throw. \<open>insert_values\<close> is what
  comes before the row is formed: the validation, the connection and the widths of the
  three columns. An insert that gets past it draws its id from the sequence, whether or
  not the unique constraint then lets the row in. The result is the state after the
  call, and the instance or what was thrown.
\<close>

definition new_player :: "int \<Rightarrow> string \<Rightarrow> string \<Rightarrow> string option \<Rightarrow> player" where
  "new_player i u pw em =
     \<lparr>player_id = i, username = u, email = em, display_name = None,
      theme = ''system'', avatar = None, points = 0, coins = 0,
      networking_completed = False, programming_completed = False,
      systemunit_completed = False, networking_hard_perfect = False,
      programming_game_unlocked = False, progress = None, password = pw\<rparr>"

definition insert_values ::
  "env \<Rightarrow> string \<Rightarrow> string \<Rightarrow> string option \<Rightarrow> exn + (string \<times> string \<times> string option)" where
  "insert_values e u pw em =
     await (validate_email e em) (\<lambda>_.
     await (query e ()) (\<lambda>_.
     await (varchar_column 100 u) (\<lambda>u'.
     await (varchar_column_opt 255 em) (\<lambda>em'.
     await (varchar_column 100 pw) (\<lambda>pw'.
       Inr (u', pw', em'))))))"

definition Player_create ::
  "env \<Rightarrow> state \<Rightarrow> string \<Rightarrow> string \<Rightarrow> string option \<Rightarrow> state \<times> (exn + player)" where
  "Player_create e st u pw em =
     (case insert_values e u pw em of
        Inl err \<Rightarrow> (st, Inl err)
      | Inr (u', pw', em') \<Rightarrow>
          let st' = st\<lparr>next_id := next_id st + 1\<rparr> in
          if u' \<in> set (map username (players st)) then (st', Inl SequelizeUniqueConstraintError)
          else
            let p = new_player (next_id st) u' pw' em'
            in (st'\<lparr>players := players st @ [p]\<rparr>, Inr p))"

text \<open>An UPDATE with \<open>WHERE id = i\<close>, as \<open>save\<close> and \<open>update\<close> of an instance send it.\<close>

definition update_where_id :: "int \<Rightarrow> (player \<Rightarrow> player) \<Rightarrow> player list \<Rightarrow> player list" where
  "update_where_id i f rows = map (\<lambda>r. if player_id r = i then f r else r) rows"

text \<open>An UPDATE with \<open>WHERE username = u\<close>, as the two raw statements are.\<close>

definition update_where_username ::
  "string \<Rightarrow> (player \<Rightarrow> player) \<Rightarrow> player list \<Rightarrow> player list" where
  "update_where_username u f rows = map (\<lambda>r. if username r = u then f r else r) rows"

text \<open>
  \<open>player.save()\<close> and \<open>player.update(...)\<close>, once the changed values have passed their
  columns: \<open>f\<close> writes them.
\<close>

definition save :: "env \<Rightarrow> state \<Rightarrow> player \<Rightarrow> (player \<Rightarrow> player) \<Rightarrow> exn + state" where
  "save e st p f = query e (st\<lparr>players := update_where_id (player_id p) f (players st)\<rparr>)"

text \<open>\<open>player.destroy()\<close>.\<close>

definition destroy :: "env \<Rightarrow> state \<Rightarrow> player \<Rightarrow> exn + state" where
  "destroy e st p =
     query e (st\<lparr>players := filter (\<lambda>r. player_id r \<noteq> player_id p) (players st)\<rparr>)"

subsection \<open>Sessions\<close>

text \<open>\<open>req.session.user\<close> of a request that carries the cookie \<open>cookie\<close>.\<close>

definition session_user :: "state \<Rightarrow> nat option \<Rightarrow> session_user option" where
  "session_user st cookie = (case cookie of None \<Rightarrow> None | Some sid \<Rightarrow> sessions st sid)"

text \<open>
  \<open>req.session.user = user\<close>: a request whose cookie names a stored session writes that
  session; any other request gets a session with a new id, which the response sets as
  its cookie.
\<close>

definition session_set_user :: "state \<Rightarrow> nat option \<Rightarrow> session_user \<Rightarrow> state \<times> nat option" where
  "session_set_user st cookie user =
     (case session_user st cookie of
        Some _ \<Rightarrow>
          (case cookie of
             Some sid \<Rightarrow> (st\<lparr>sessions := (sessions st)(sid \<mapsto> user)\<rparr>, None)
           | None \<Rightarrow> (st, None))
      | None \<Rightarrow>
          (st\<lparr>sessions := (sessions st)(next_sid st \<mapsto> user), next_sid := Suc (next_sid st)\<rparr>,
           Some (next_sid st)))"

text \<open>\<open>req.session.destroy()\<close>.\<close>

definition session_destroy :: "state \<Rightarrow> nat option \<Rightarrow> state" where
  "session_destroy st cookie =
     (case cookie of None \<Rightarrow> st | Some sid \<Rightarrow> st\<lparr>sessions := (sessions st)(sid := None)\<rparr>)"

text \<open>The middleware \<open>isAuthenticated\<close> (lines 417-422); \<open>next\<close> is the route's handler.\<close>

definition isAuthenticated ::
  "state \<Rightarrow> nat option \<Rightarrow> (session_user \<Rightarrow> state \<times> response) \<Rightarrow> state \<times> response" where
  "isAuthenticated st cookie next =
     (case session_user st cookie of
        Some user \<Rightarrow> next user
      | None \<Rightarrow> (st, json_res 401 (error_body ''Not authenticated'')))"

subsection \<open>The routes\<close>

text \<open>
  Each handler takes the environment, the state and the fields it reads from the body
  (primed, to keep them apart from the columns), and returns the new state and the
  response. \<open>str\<close> reads a field that was found truthy.
\<close>

definition str :: "string option \<Rightarrow> string" where
  "str v = (case v of None \<Rightarrow> [] | Some s \<Rightarrow> s)"

text \<open>POST /create-player (lines 426-444).\<close>

definition create_player ::
  "env \<Rightarrow> state \<Rightarrow> string option \<Rightarrow> string option \<Rightarrow> string option \<Rightarrow> state \<times> response" where
  "create_player e st username' password' email' =
     (if \<not> truthy username' \<or> \<not> truthy password'
      then (st, json_res 400 (error_body ''Username and password are required''))
      else
        let hashedPassword = bcrypt_hash e (str password');
            (st', created) = Player_create e st (str username') hashedPassword email'
        in try_catch st' (error_body ''Failed to create player'')
             (await created (\<lambda>player.
                Inr (st', json_res 200
                  (JObj [(''success'', JBool True), (''player'', toJSON player)])))))"

text \<open>GET /get-players, /get-posts and /players (lines 447-477).\<close>

definition get_players :: "env \<Rightarrow> state \<Rightarrow> state \<times> response" where
  "get_players e st =
     try_catch st (error_body ''Failed to fetch players'')
       (await (findAll e st) (\<lambda>rows. Inr (st, json_res 200 (JArr (map toJSON rows)))))"

definition get_posts :: "env \<Rightarrow> state \<Rightarrow> state \<times> response" where
  "get_posts e st =
     try_catch st (error_body ''Failed to fetch posts'')
       (await (findAll e st) (\<lambda>rows. Inr (st, json_res 200 (JArr (map toJSON rows)))))"

definition players_route :: "env \<Rightarrow> state \<Rightarrow> state \<times> response" where
  "players_route e st =
     try_catch st (error_body ''Failed to fetch players'')
       (await (findAll e st) (\<lambda>rows. Inr (st, json_res 200 (JArr (map toJSON rows)))))"

text \<open>POST /login (lines 480-504).\<close>

definition login :: "env \<Rightarrow> state \<Rightarrow> nat option \<Rightarrow> string \<Rightarrow> string \<Rightarrow> state \<times> response" where
  "login e st cookie username' password' =
     try_catch st (JObj [(''success'', JBool False), (''error'', JStr ''Failed to login'')])
       (await (findOne_username e st username') (\<lambda>found.
          case found of
            None \<Rightarrow>
              Inr (st, json_res 404
                (JObj [(''success'', JBool False), (''message'', JStr ''Player not found'')]))
          | Some player \<Rightarrow>
              let validPassword = bcrypt_compare e password' (password player) in
              if \<not> validPassword
              then Inr (st, json_res 401
                (JObj [(''success'', JBool False), (''message'', JStr ''Invalid password'')]))
              else
                let (st', sid) = session_set_user st cookie (player_id player, username player) in
                Inr (st',
                  \<lparr>status = 200,
                   body = JObj [(''success'', JBool True),
                     (''player'', JObj [(''id'', JNum (player_id player)),
                                        (''username'', JStr (username player))])],
                   set_cookie = sid\<rparr>)))"

text \<open>GET /api/current-user (lines 507-523).\<close>

definition current_user :: "env \<Rightarrow> state \<Rightarrow> nat option \<Rightarrow> state \<times> response" where
  "current_user e st cookie =
     isAuthenticated st cookie (\<lambda>user.
       try_catch st (error_body ''Failed to fetch user data'')
         (await (findOne_id e st (fst user)) (\<lambda>found.
            case found of
              None \<Rightarrow> Inr (st, json_res 404 (error_body ''User not found''))
            | Some player \<Rightarrow> Inr (st, json_res 200 (toJSON_profile player)))))"

text \<open>GET /api/player/:username (lines 526-536).\<close>

definition get_player :: "env \<Rightarrow> state \<Rightarrow> string \<Rightarrow> state \<times> response" where
  "get_player e st username' =
     try_catch st (error_body ''Failed to fetch player'')
       (await (findOne_username e st username') (\<lambda>found.
          case found of
            None \<Rightarrow> Inr (st, json_res 404 (error_body ''Player not found''))
          | Some player \<Rightarrow> Inr (st, json_res 200 (toJSON player))))"

text \<open>
  POST /api/update-profile (lines 539-563). \<open>player.update\<close> validates the email if it
  has changed, and writes the attributes that have changed.
\<close>

definition update_profile ::
  "env \<Rightarrow> state \<Rightarrow> nat option \<Rightarrow> string option \<Rightarrow> string option \<Rightarrow> string option \<Rightarrow>
   string option \<Rightarrow> state \<times> response" where
  "update_profile e st cookie email' displayName' theme' avatar' =
     isAuthenticated st cookie (\<lambda>user.
       try_catch st (error_body ''Failed to update profile'')
         (await (findOne_id e st (fst user)) (\<lambda>found.
            case found of
              None \<Rightarrow> Inr (st, json_res 404 (error_body ''User not found''))
            | Some player \<Rightarrow>
                await (validate_changed_email e (email player)
                    (js_or email' (email player))) (\<lambda>_.
                await (changed_varchar_opt 255 (email player)
                    (js_or email' (email player))) (\<lambda>em.
                await (changed_varchar_opt 100 (display_name player)
                    (js_or displayName' (display_name player))) (\<lambda>dn.
                await (changed_varchar 20 (theme player)
                    (js_or_str theme' (theme player))) (\<lambda>th.
                await (save e st player (\<lambda>r. r
                    \<lparr>email := em, display_name := dn, theme := th,
                     avatar := js_or avatar' (avatar player)\<rparr>)) (\<lambda>st'.
                  Inr (st', json_res 200
                    (success_message ''Profile updated successfully''))))))))))"

text \<open>POST /api/upload-avatar (lines 566-583).\<close>

definition upload_avatar :: "env \<Rightarrow> state \<Rightarrow> nat option \<Rightarrow> string \<Rightarrow> state \<times> response" where
  "upload_avatar e st cookie avatar' =
     isAuthenticated st cookie (\<lambda>user.
       try_catch st (error_body ''Failed to upload avatar'')
         (await (findOne_id e st (fst user)) (\<lambda>found.
            case found of
              None \<Rightarrow> Inr (st, json_res 404 (error_body ''User not found''))
            | Some player \<Rightarrow>
                await (save e st player (\<lambda>r. r\<lparr>avatar := Some avatar'\<rparr>)) (\<lambda>st'.
                  Inr (st', json_res 200 (success_message ''Avatar uploaded successfully''))))))"

text \<open>POST /api/change-password (lines 586-613).\<close>

definition change_password ::
  "env \<Rightarrow> state \<Rightarrow> nat option \<Rightarrow> string \<Rightarrow> string \<Rightarrow> state \<times> response" where
  "change_password e st cookie currentPassword newPassword =
     isAuthenticated st cookie (\<lambda>user.
       try_catch st (error_body ''Failed to change password'')
         (await (findOne_id e st (fst user)) (\<lambda>found.
            case found of
              None \<Rightarrow> Inr (st, json_res 404 (error_body ''User not found''))
            | Some player \<Rightarrow>
                let isMatch = bcrypt_compare e currentPassword (password player) in
                if \<not> isMatch
                then Inr (st, json_res 401 (error_body ''Current password is incorrect''))
                else
                  let hashedPassword = bcrypt_hash e newPassword in
                  await (changed_varchar 100 (password player) hashedPassword) (\<lambda>pw.
                  await (save e st player (\<lambda>r. r\<lparr>password := pw\<rparr>)) (\<lambda>st'.
                    Inr (st', json_res 200
                      (success_message ''Password changed successfully'')))))))"

text \<open>POST /api/delete-account (lines 616-634).\<close>

definition delete_account :: "env \<Rightarrow> state \<Rightarrow> nat option \<Rightarrow> state \<times> response" where
  "delete_account e st cookie =
     isAuthenticated st cookie (\<lambda>user.
       try_catch st (error_body ''Failed to delete account'')
         (await (findOne_id e st (fst user)) (\<lambda>found.
            case found of
              None \<Rightarrow> Inr (st, json_res 404 (error_body ''User not found''))
            | Some player \<Rightarrow>
                await (destroy e st player) (\<lambda>st'.
                  Inr (session_destroy st' cookie,
                       json_res 200 (success_message ''Account deleted successfully''))))))"

text \<open>POST /api/logout-others (lines 637-647).\<close>

definition logout_others :: "env \<Rightarrow> state \<Rightarrow> nat option \<Rightarrow> state \<times> response" where
  "logout_others e st cookie =
     isAuthenticated st cookie (\<lambda>user.
       (st, json_res 200 (success_message ''Other sessions logged out'')))"

text \<open>POST /api/reward (lines 650-668).\<close>

definition reward ::
  "env \<Rightarrow> state \<Rightarrow> string option \<Rightarrow> int option \<Rightarrow> int option \<Rightarrow> state \<times> response" where
  "reward e st username' points' coins' =
     try_catch st (error_body ''Failed to apply reward'')
       (if \<not> truthy username' then Inr (st, json_res 400 (error_body ''Username is required''))
        else
          await (findOne_username e st (str username')) (\<lambda>found.
            case found of
              None \<Rightarrow> Inr (st, json_res 404 (error_body ''Player not found''))
            | Some player \<Rightarrow>
                let newCoins = coins player + or_zero coins' in
                if newCoins < 0 then Inr (st, json_res 400 (error_body ''Not enough coins''))
                else
                  let player' = player\<lparr>points := points player + or_zero points',
                                       coins := newCoins\<rparr> in
                  await (changed_integer (points player) (points player')) (\<lambda>_.
                  await (changed_integer (coins player) (coins player')) (\<lambda>_.
                  await (save e st player'
                      (\<lambda>r. r\<lparr>points := points player', coins := coins player'\<rparr>)) (\<lambda>st'.
                    Inr (st', json_res 200
                      (JObj [(''success'', JBool True), (''message'', JStr ''Reward applied''),
                             (''player'', toJSON player')])))))))"

text \<open>
  The values of a raw statement are written into its text before it is sent: Sequelize
  throws on a named replacement that has no value.
\<close>

definition replacement :: "'a option \<Rightarrow> exn + 'a" where
  "replacement v = (case v of None \<Rightarrow> Inl MissingReplacement | Some x \<Rightarrow> Inr x)"

text \<open>
  POST /update-coins (lines 670-687). The value is a constant of the statement, so the
  column takes or rejects it whether or not a row matches.
\<close>

definition update_coins ::
  "env \<Rightarrow> state \<Rightarrow> string option \<Rightarrow> int option \<Rightarrow> state \<times> response" where
  "update_coins e st username' coins' =
     try_catch st (error_body ''Failed to update coins'')
       (if \<not> truthy username' then Inr (st, json_res 400 (error_body ''Username required''))
        else
          await (replacement coins') (\<lambda>c.
          await (query e ()) (\<lambda>_.
          await (integer_column c) (\<lambda>_.
            Inr (st\<lparr>players :=
                   update_where_username (str username') (\<lambda>r. r\<lparr>coins := c\<rparr>) (players st)\<rparr>,
                 json_res 200 (JObj [(''success'', JBool True), (''coins'', JNum c)]))))))"

text \<open>
  POST /update-progress (lines 690-711). The statement sets \<open>unlocked_levels\<close>, which is
  no column of the table: the server rejects it, so the handler never gets past its
  \<open>await\<close>. \<open>JSON.stringify\<close> of an absent \<open>unlockedLevels\<close> is \<open>undefined\<close>, a
  replacement without a value.
\<close>

definition unknown_column :: "exn + state" where
  "unknown_column = Inl SequelizeDatabaseError"

definition update_progress ::
  "env \<Rightarrow> state \<Rightarrow> string option \<Rightarrow> int option \<Rightarrow> json option \<Rightarrow> state \<times> response" where
  "update_progress e st username' coins' unlockedLevels =
     try_catch st (error_body ''Failed to update progress'')
       (if \<not> truthy username' then Inr (st, json_res 400 (error_body ''Username required''))
        else
          await (replacement coins') (\<lambda>c.
          await (replacement unlockedLevels) (\<lambda>levels.
          await (query e ()) (\<lambda>_.
          await unknown_column (\<lambda>st'.
            Inr (st', json_res 200 (JObj [(''success'', JBool True)])))))))"

subsection \<open>Requests and runs\<close>

datatype request =
    CreatePlayer "string option" "string option" "string option"
  | GetPlayers
  | GetPosts
  | Players
  | Login string string
  | CurrentUser
  | GetPlayer string
  | UpdateProfile "string option" "string option" "string option" "string option"
  | UploadAvatar string
  | ChangePassword string string
  | DeleteAccount
  | LogoutOthers
  | Reward "string option" "int option" "int option"
  | UpdateCoins "string option" "int option"
  | UpdateProgress "string option" "int option" "json option"

text \<open>The router: one request, with the session cookie it carries.\<close>

fun handle :: "env \<Rightarrow> state \<Rightarrow> nat option \<Rightarrow> request \<Rightarrow> state \<times> response" where
  "handle e st cookie (CreatePlayer u pw em) = create_player e st u pw em"
| "handle e st cookie GetPlayers = get_players e st"
| "handle e st cookie GetPosts = get_posts e st"
| "handle e st cookie Players = players_route e st"
| "handle e st cookie (Login u pw) = login e st cookie u pw"
| "handle e st cookie CurrentUser = current_user e st cookie"
| "handle e st cookie (GetPlayer u) = get_player e st u"
| "handle e st cookie (UpdateProfile em dn th av) = update_profile e st cookie em dn th av"
| "handle e st cookie (UploadAvatar av) = upload_avatar e st cookie av"
| "handle e st cookie (ChangePassword cur new) = change_password e st cookie cur new"
| "handle e st cookie DeleteAccount = delete_account e st cookie"
| "handle e st cookie LogoutOthers = logout_others e st cookie"
| "handle e st cookie (Reward u p c) = reward e st u p c"
| "handle e st cookie (UpdateCoins u c) = update_coins e st u c"
| "handle e st cookie (UpdateProgress u c lv) = update_progress e st u c lv"

text \<open>The routes registered with \<open>isAuthenticated\<close>.\<close>

fun gated :: "request \<Rightarrow> bool" where
  "gated CurrentUser = True"
| "gated (UpdateProfile em dn th av) = True"
| "gated (UploadAvatar av) = True"
| "gated (ChangePassword cur new) = True"
| "gated DeleteAccount = True"
| "gated LogoutOthers = True"
| "gated _ = False"

text \<open>The routes that answer with whole rows of the table.\<close>

fun returns_rows :: "request \<Rightarrow> bool" where
  "returns_rows (CreatePlayer u pw em) = True"
| "returns_rows GetPlayers = True"
| "returns_rows GetPosts = True"
| "returns_rows Players = True"
| "returns_rows (GetPlayer u) = True"
| "returns_rows (Reward u p c) = True"
| "returns_rows _ = False"

text \<open>A run of the server: the requests are handled one after the other.\<close>

fun run :: "state \<Rightarrow> (env \<times> nat option \<times> request) list \<Rightarrow> state" where
  "run st [] = st"
| "run st ((e, cookie, r) # rs) = run (fst (handle e st cookie r)) rs"

text \<open>Every stored session id has been drawn from the counter.\<close>

definition sessions_drawn :: "state \<Rightarrow> bool" where
  "sessions_drawn st = (\<forall>sid \<in> dom (sessions st). sid < next_sid st)"

text \<open>The cookie a client holds after a response: the one it was sent, if any.\<close>

definition cookie_after :: "nat option \<Rightarrow> response \<Rightarrow> nat option" where
  "cookie_after cookie res = (case set_cookie res of Some sid \<Rightarrow> Some sid | None \<Rightarrow> cookie)"

subsection \<open>The error kinds of the specification\<close>

text \<open>
  The specification names its failures by kind and gives each kind an HTTP status:
  400 for user errors, 401 for authentication, 404 for not-found and 500 for internal
  failures. \<open>spec_status\<close> follows these words of the specification, not the code; a
  uniqueness violation and a reward that cannot be paid are errors of the request.
\<close>

datatype error_kind =
    MissingField
  | Conflict
  | NotFound
  | InvalidCredential
  | Unauthenticated
  | InsufficientCoins
  | Internal

fun spec_status :: "error_kind \<Rightarrow> nat" where
  "spec_status MissingField = 400"
| "spec_status Conflict = 400"
| "spec_status InsufficientCoins = 400"
| "spec_status InvalidCredential = 401"
| "spec_status Unauthenticated = 401"
| "spec_status NotFound = 404"
| "spec_status Internal = 500"

subsection \<open>A small instance\<close>

text \<open>
  An environment and a state to run the handlers on: a stand-in for bcrypt that keeps
  the plaintext out of the hash only in name, two players and one session, of alice.
\<close>

definition example_env :: env where
  "example_env =
     \<lparr>bcrypt_hash = (\<lambda>s. ''$2a$10$'' @ rev s),
      bcrypt_compare = (\<lambda>s h. h = ''$2a$10$'' @ rev s),
      isEmail = (\<lambda>m. CHR ''@'' \<in> set m),
      db_up = True\<rparr>"

definition alice :: player where
  "alice = (new_player 1 ''alice'' (''$2a$10$'' @ rev ''secret'') (Some ''alice@example.org''))
     \<lparr>display_name := Some ''Alice'', coins := 5\<rparr>"

definition bob :: player where
  "bob = new_player 2 ''bob'' (''$2a$10$'' @ rev ''hunter2'') None"

definition example_state :: state where
  "example_state =
     \<lparr>players = [alice, bob], next_id = 3,
      sessions = [0 \<mapsto> (1, ''alice'')], next_sid = 1\<rparr>"

section \<open>Properties\<close>

subsection \<open>Reading and writing the table\<close>

lemma find_map_same:
  "(\<And>x. P (g x) = P x) \<Longrightarrow> find P (map g xs) = map_option g (find P xs)"
  by (induction xs) auto

lemma or_zero_eq: "or_zero v = (case v of None \<Rightarrow> 0 | Some n \<Rightarrow> n)"
  by (simp add: or_zero_def split: option.splits)

lemma findOne_username_up:
  "db_up e \<Longrightarrow> findOne_username e st u = Inr (find (\<lambda>p. username p = u) (players st))"
  by (simp add: findOne_username_def query_def)

lemma findOne_id_up:
  "db_up e \<Longrightarrow> findOne_id e st i = Inr (find (\<lambda>p. player_id p = i) (players st))"
  by (simp add: findOne_id_def query_def)


lemma find_update_where_username:
  "(\<And>r. username (f r) = username r) \<Longrightarrow> find (\<lambda>r. username r = u) rows = Some p \<Longrightarrow>
   find (\<lambda>r. username r = u) (update_where_username u f rows) = Some (f p)"
  unfolding update_where_username_def
  by (subst find_map_same) (auto dest: find_Some_iff[THEN iffD1])

lemma find_update_where_id:
  "(\<And>r. player_id (f r) = player_id r) \<Longrightarrow> find (\<lambda>r. player_id r = i) rows = Some p \<Longrightarrow>
   find (\<lambda>r. player_id r = i) (update_where_id i f rows) = Some (f p)"
  unfolding update_where_id_def
  by (subst find_map_same) (auto dest: find_Some_iff[THEN iffD1])

lemma varchar_column_fits: "length s \<le> n \<Longrightarrow> varchar_column n s = Inr s"
  by (simp add: varchar_column_def)

lemma changed_integer_fits: "int4 new \<Longrightarrow> changed_integer old new = Inr new"
  by (simp add: changed_integer_def integer_column_def)

lemma changed_varchar_fits: "length new \<le> n \<Longrightarrow> changed_varchar n old new = Inr new"
  by (simp add: changed_varchar_def varchar_column_fits)

lemma changed_varchar_opt_fits:
  "(case new of None \<Rightarrow> True | Some s \<Rightarrow> length s \<le> n) \<Longrightarrow>
   changed_varchar_opt n old new = Inr new"
  by (simp add: changed_varchar_opt_def varchar_column_opt_def varchar_column_fits await_def
      split: option.splits)

lemmas route_defs = create_player_def get_players_def get_posts_def players_route_def
  login_def current_user_def get_player_def update_profile_def upload_avatar_def
  change_password_def delete_account_def logout_others_def reward_def update_coins_def
  update_progress_def

lemmas call_defs = isAuthenticated_def try_catch_def await_def query_def findAll_def
  findOne_username_def findOne_id_def validate_email_def validate_changed_email_def
  insert_values_def Player_create_def save_def destroy_def replacement_def unknown_column_def

lemmas column_defs = integer_column_def varchar_column_def varchar_column_opt_def
  changed_integer_def changed_varchar_def changed_varchar_opt_def

lemma example_db_up: "db_up example_env"
  by (simp add: example_env_def)

lemma example_find_alice:
  "find (\<lambda>r. username r = ''alice'') (players example_state) = Some alice"
  by (simp add: example_state_def alice_def new_player_def)

lemma example_find_bob:
  "find (\<lambda>r. username r = ''bob'') (players example_state) = Some bob"
  by (simp add: example_state_def alice_def bob_def new_player_def)

lemma example_drawn: "sessions_drawn example_state"
  by (simp add: sessions_drawn_def example_state_def)

lemma example_find_alice_id:
  "find (\<lambda>r. player_id r = 1) (players example_state) = Some alice"
  by (simp add: example_state_def alice_def new_player_def)

lemma example_session: "session_user example_state (Some 0) = Some (1, ''alice'')"
  by (simp add: session_user_def example_state_def)

lemma example_delete:
  "delete_account example_env example_state (Some 0) =
     (example_state\<lparr>players := [bob], sessions := Map.empty\<rparr>,
      json_res 200 (success_message ''Account deleted successfully''))"
  using example_find_alice_id example_session
  by (simp add: delete_account_def isAuthenticated_def findOne_id_up example_db_up await_def
      try_catch_def destroy_def query_def session_destroy_def)
     (simp add: example_state_def alice_def bob_def new_player_def)

subsection \<open>Rewards\<close>

text \<open>
  C2. When the database answers and the request names a player \<open>p\<close> (the row that
  \<open>findOne\<close> returns for the username) with a coins delta \<open>d\<close> such that
  \<open>coins p + d < 0\<close>, the reward route answers 400 "Not enough coins" (the
  InsufficientCoins failure) and the state after the request is the state before it:
  no row changes, neither coins nor points, whatever points delta was sent.
\<close>

theorem reward_insufficient_coins:
  assumes "db_up e" and "username' = Some u" and "u \<noteq> []"
    and "find (\<lambda>r. username r = u) (players st) = Some p"
    and "coins' = Some d" and "coins p + d < 0"
  shows "reward e st username' points' coins' =
           (st, json_res 400 (error_body ''Not enough coins''))"
  using assms
  by (simp add: reward_def truthy_def str_def findOne_username_up await_def try_catch_def
      or_zero_def)

theorem reward_insufficient_coins_witness:
  "coins alice = 5 \<and>
   reward example_env example_state (Some ''alice'') (Some 7) (Some (- 10)) =
     (example_state, json_res 400 (error_body ''Not enough coins''))"
  using reward_insufficient_coins [of example_env "Some ''alice''" "''alice''" example_state
      alice "Some (- 10)" "- 10" "Some 7"] example_find_alice
  by (simp add: example_env_def alice_def new_player_def)

text \<open>
  C7, as stated, fails when a sum leaves the column. Alice has 2147483647 coins and is
  rewarded 5: the resulting coins are not negative, but \<open>player.save()\<close> throws on the
  value that an \<open>INTEGER\<close> cannot hold, the route answers 500 and nothing is written.
\<close>

theorem reward_out_of_range_counterexample:
  "0 \<le> coins (alice\<lparr>coins := 2147483647\<rparr>) + 5
   \<and> reward example_env (example_state\<lparr>players := [alice\<lparr>coins := 2147483647\<rparr>, bob]\<rparr>)
       (Some ''alice'') None (Some 5) =
     (example_state\<lparr>players := [alice\<lparr>coins := 2147483647\<rparr>, bob]\<rparr>,
      json_res 500 (error_body ''Failed to apply reward''))"
  by (simp add: reward_def truthy_def str_def findOne_username_up example_db_up await_def
      try_catch_def or_zero_def Let_def changed_integer_def integer_column_def int4_def
      example_state_def alice_def new_player_def)

text \<open>
  C7, amended. When the database answers and the request names a player \<open>p\<close>, with \<open>dp\<close>
  and \<open>dc\<close> the points and coins deltas of the body (0 for an absent field),
  \<open>0 \<le> coins p + dc\<close>, and both sums within the 32 bits of their columns, the reward
  route answers 200 with the updated player, writes \<open>points p + dp\<close> and \<open>coins p + dc\<close>
  to the row of \<open>p\<close>, and the row read back under the username is \<open>p\<close> with exactly
  these two columns changed.
\<close>

theorem reward_applies:
  assumes "db_up e" and "username' = Some u" and "u \<noteq> []"
    and "find (\<lambda>r. username r = u) (players st) = Some p"
    and "dp = (case points' of None \<Rightarrow> 0 | Some n \<Rightarrow> n)"
    and "dc = (case coins' of None \<Rightarrow> 0 | Some n \<Rightarrow> n)"
    and "0 \<le> coins p + dc"
    and "int4 (points p + dp)" and "int4 (coins p + dc)"
    and "p' = p\<lparr>points := points p + dp, coins := coins p + dc\<rparr>"
    and "st' = fst (reward e st username' points' coins')"
  shows "reward e st username' points' coins' =
           (st\<lparr>players := update_where_id (player_id p)
                  (\<lambda>r. r\<lparr>points := points p + dp, coins := coins p + dc\<rparr>) (players st)\<rparr>,
            json_res 200 (JObj [(''success'', JBool True), (''message'', JStr ''Reward applied''),
                                (''player'', toJSON p')]))
       \<and> find (\<lambda>r. username r = u) (players st') = Some p'"
proof -
  have r: "reward e st username' points' coins' =
           (st\<lparr>players := update_where_id (player_id p)
                  (\<lambda>r. r\<lparr>points := points p + dp, coins := coins p + dc\<rparr>) (players st)\<rparr>,
            json_res 200 (JObj [(''success'', JBool True), (''message'', JStr ''Reward applied''),
                                (''player'', toJSON p')]))"
    using assms
    by (simp add: reward_def truthy_def str_def findOne_username_up await_def try_catch_def
        or_zero_eq save_def query_def Let_def changed_integer_fits)
  have "find (\<lambda>r. username r = u) (update_where_id (player_id p)
                  (\<lambda>r. r\<lparr>points := points p + dp, coins := coins p + dc\<rparr>) (players st))
        = Some p'"
    unfolding update_where_id_def using assms(4,10)
    by (subst find_map_same) auto
  with r assms(11) show ?thesis by simp
qed

theorem reward_applies_witness:
  "points bob = 0 \<and> coins bob = 0 \<and>
   find (\<lambda>r. username r = ''bob'')
     (players (fst (reward example_env example_state (Some ''bob'') (Some 10) (Some 3))))
     = Some (bob\<lparr>points := 10, coins := 3\<rparr>) \<and>
   find (\<lambda>r. username r = ''bob'')
     (players (fst (reward example_env example_state (Some ''bob'') None (Some 3))))
     = Some (bob\<lparr>points := 0, coins := 3\<rparr>)"
proof -
  have b: "points bob = 0" "coins bob = 0"
    by (simp_all add: bob_def new_player_def)
  have "find (\<lambda>r. username r = ''bob'')
     (players (fst (reward example_env example_state (Some ''bob'') (Some 10) (Some 3))))
     = Some (bob\<lparr>points := 10, coins := 3\<rparr>)"
    using reward_applies [OF example_db_up refl _ example_find_bob refl refl _ _ _ refl refl,
        where points' = "Some 10" and coins' = "Some 3", THEN conjunct2] b
    by (simp add: int4_def)
  moreover have "find (\<lambda>r. username r = ''bob'')
     (players (fst (reward example_env example_state (Some ''bob'') None (Some 3))))
     = Some (bob\<lparr>points := 0, coins := 3\<rparr>)"
    using reward_applies [OF example_db_up refl _ example_find_bob refl refl _ _ _ refl refl,
        where points' = None and coins' = "Some 3", THEN conjunct2] b
    by (simp add: int4_def)
  ultimately show ?thesis using b by simp
qed

subsection \<open>The raw updates\<close>

text \<open>
  C3, as stated, fails on a value the column cannot hold: update-coins with
  \<open>coins: 2147483648\<close> for alice is answered 500 and her row stays as it was.
\<close>

theorem update_coins_out_of_range_counterexample:
  "update_coins example_env example_state (Some ''alice'') (Some 2147483648) =
     (example_state, json_res 500 (error_body ''Failed to update coins''))"
  by (simp add: update_coins_def truthy_def replacement_def query_def example_db_up
      integer_column_def int4_def await_def try_catch_def)

text \<open>
  C3, amended. When the database answers and the request names an existing player \<open>p\<close>
  and carries a coins value \<open>c\<close> within the 32 bits of the column, the update-coins
  route answers 200 and sets the coins of every row of that username to \<open>c\<close>, whatever
  its sign: the row read back is \<open>p\<close> with \<open>coins = c\<close>. No comparison with 0 is made.
\<close>

theorem update_coins_sets:
  assumes "db_up e" and "username' = Some u" and "u \<noteq> []"
    and "find (\<lambda>r. username r = u) (players st) = Some p"
    and "coins' = Some c" and "int4 c"
    and "st' = fst (update_coins e st username' coins')"
  shows "update_coins e st username' coins' =
           (st\<lparr>players := update_where_username u (\<lambda>r. r\<lparr>coins := c\<rparr>) (players st)\<rparr>,
            json_res 200 (JObj [(''success'', JBool True), (''coins'', JNum c)]))
       \<and> find (\<lambda>r. username r = u) (players st') = Some (p\<lparr>coins := c\<rparr>)"
  using assms
  by (simp add: update_coins_def truthy_def str_def await_def try_catch_def query_def
      replacement_def integer_column_def find_update_where_username)

theorem update_coins_sets_witness:
  "update_coins example_env example_state (Some ''alice'') (Some (- 5)) =
     (example_state\<lparr>players := [alice\<lparr>coins := - 5\<rparr>, bob]\<rparr>,
      json_res 200 (JObj [(''success'', JBool True), (''coins'', JNum (- 5))]))
   \<and> find (\<lambda>r. username r = ''alice'')
       (players (fst (update_coins example_env example_state (Some ''alice'') (Some (- 5)))))
     = Some (alice\<lparr>coins := - 5\<rparr>)"
proof -
  have i: "int4 (- 5)" by (simp add: int4_def)
  note u = update_coins_sets [OF example_db_up refl _ example_find_alice refl i refl]
  have rows: "update_where_username ''alice'' (\<lambda>r. r\<lparr>coins := - 5\<rparr>) (players example_state)
      = [alice\<lparr>coins := - 5\<rparr>, bob]"
    by (simp add: update_where_username_def example_state_def alice_def bob_def new_player_def)
  from u [THEN conjunct1] u [THEN conjunct2] rows show ?thesis by simp
qed




subsection \<open>Login\<close>

text \<open>
  C5. When the database answers, a login whose username is the username of no row is
  answered 404 "Player not found" (NotFound), and a login that names a player \<open>p\<close> with
  a password that \<open>bcrypt.compare\<close> rejects against \<open>password p\<close> is answered 401
  "Invalid password" (InvalidCredential); neither changes the state. The two are told
  apart by their status: the status is 404 exactly when no row matches, and 401
  exactly when a row matches and the password does not verify.
\<close>

theorem login_failures:
  assumes "db_up e"
  shows "(find (\<lambda>r. username r = u) (players st) = None \<longrightarrow>
            login e st cookie u pw =
              (st, json_res 404
                (JObj [(''success'', JBool False), (''message'', JStr ''Player not found'')])))
       \<and> (\<forall>p. find (\<lambda>r. username r = u) (players st) = Some p \<longrightarrow>
               \<not> bcrypt_compare e pw (password p) \<longrightarrow>
            login e st cookie u pw =
              (st, json_res 401
                (JObj [(''success'', JBool False), (''message'', JStr ''Invalid password'')])))
       \<and> (status (snd (login e st cookie u pw)) = spec_status NotFound \<longleftrightarrow>
            find (\<lambda>r. username r = u) (players st) = None)
       \<and> (status (snd (login e st cookie u pw)) = spec_status InvalidCredential \<longleftrightarrow>
            (\<exists>p. find (\<lambda>r. username r = u) (players st) = Some p \<and>
                 \<not> bcrypt_compare e pw (password p)))"
  using assms
  by (auto simp add: login_def findOne_username_up await_def try_catch_def json_res_def Let_def
      split: option.splits prod.splits)

theorem login_failures_witness:
  "login example_env example_state None ''carol'' ''secret'' =
     (example_state, json_res 404
        (JObj [(''success'', JBool False), (''message'', JStr ''Player not found'')]))
   \<and> login example_env example_state None ''alice'' ''guess'' =
     (example_state, json_res 401
        (JObj [(''success'', JBool False), (''message'', JStr ''Invalid password'')]))"
proof -
  have 1: "find (\<lambda>r. username r = ''carol'') (players example_state) = None"
    by (simp add: example_state_def alice_def bob_def new_player_def)
  have 2: "\<not> bcrypt_compare example_env ''guess'' (password alice)"
    by (simp add: example_env_def alice_def new_player_def)
  note l = login_failures [OF example_db_up, of _ example_state None]
  from l [of "''carol''" "''secret''", THEN conjunct1] 1
  have "login example_env example_state None ''carol'' ''secret'' =
     (example_state, json_res 404
        (JObj [(''success'', JBool False), (''message'', JStr ''Player not found'')]))"
    by simp
  moreover from l [of "''alice''" "''guess''", THEN conjunct2, THEN conjunct1] example_find_alice 2
  have "login example_env example_state None ''alice'' ''guess'' =
     (example_state, json_res 401
        (JObj [(''success'', JBool False), (''message'', JStr ''Invalid password'')]))"
    by simp
  ultimately show ?thesis by simp
qed

text \<open>
  C6. Every login that is answered 200 has found a player \<open>p\<close> under the username whose
  stored hash verifies the password; its body is \<open>{success: true, player: {id,
  username}}\<close> with the id and username of \<open>p\<close> and no \<open>password\<close> field, and in the state
  after it the session of the cookie the client then holds is bound to
  \<open>(player_id p, username p)\<close>.
\<close>

theorem login_success:
  assumes "status (snd (login e st cookie u pw)) = 200"
    and "st' = fst (login e st cookie u pw)" and "res = snd (login e st cookie u pw)"
  shows "\<exists>p. find (\<lambda>r. username r = u) (players st) = Some p
           \<and> bcrypt_compare e pw (password p)
           \<and> body res = JObj [(''success'', JBool True),
                 (''player'', JObj [(''id'', JNum (player_id p)),
                                    (''username'', JStr (username p))])]
           \<and> \<not> has_field ''password'' (body res)
           \<and> session_user st' (cookie_after cookie res) = Some (player_id p, username p)"
  using assms
  by (auto simp add: login_def findOne_username_def query_def await_def try_catch_def
      json_res_def Let_def session_set_user_def session_user_def cookie_after_def
      split: option.splits prod.splits if_splits)

theorem login_success_witness:
  "status (snd (login example_env example_state None ''bob'' ''hunter2'')) = 200
   \<and> body (snd (login example_env example_state None ''bob'' ''hunter2'')) =
       JObj [(''success'', JBool True),
             (''player'', JObj [(''id'', JNum 2), (''username'', JStr ''bob'')])]
   \<and> set_cookie (snd (login example_env example_state None ''bob'' ''hunter2'')) = Some 1
   \<and> session_user (fst (login example_env example_state None ''bob'' ''hunter2'')) (Some 1)
       = Some (2, ''bob'')"
proof -
  have s: "login example_env example_state None ''bob'' ''hunter2'' =
     (example_state\<lparr>sessions := (sessions example_state)(1 \<mapsto> (2, ''bob'')), next_sid := 2\<rparr>,
      \<lparr>status = 200,
       body = JObj [(''success'', JBool True),
             (''player'', JObj [(''id'', JNum 2), (''username'', JStr ''bob'')])],
       set_cookie = Some 1\<rparr>)"
    using example_find_bob
    by (simp add: login_def findOne_username_up example_db_up await_def try_catch_def
        session_set_user_def session_user_def)
       (simp add: example_env_def example_state_def bob_def new_player_def)
  from login_success [of example_env example_state None "''bob''" "''hunter2''", OF _ refl refl]
  obtain p where "find (\<lambda>r. username r = ''bob'') (players example_state) = Some p"
    and "session_user (fst (login example_env example_state None ''bob'' ''hunter2''))
           (cookie_after None (snd (login example_env example_state None ''bob'' ''hunter2'')))
         = Some (player_id p, username p)"
    using s by auto
  with example_find_bob s show ?thesis
    by (simp add: cookie_after_def bob_def new_player_def)
qed

subsection \<open>The session gate\<close>

lemma gated_unauthenticated:
  "session_user st cookie = None \<Longrightarrow> gated r \<Longrightarrow>
   handle e st cookie r = (st, json_res 401 (error_body ''Not authenticated''))"
  by (cases r) (simp_all add: route_defs isAuthenticated_def)

lemma handle_keeps_unbound:
  assumes "sessions st t = None" and "t < next_sid st"
  shows "sessions (fst (handle e st cookie r)) t = None \<and>
         t < next_sid (fst (handle e st cookie r))"
  using assms
  by (cases r)
     (auto simp add: route_defs call_defs column_defs Let_def session_set_user_def
        session_destroy_def session_user_def
        split: option.splits sum.splits if_splits prod.splits)

lemma run_keeps_unbound:
  "sessions st t = None \<Longrightarrow> t < next_sid st \<Longrightarrow>
   sessions (run st rs) t = None \<and> t < next_sid (run st rs)"
proof (induction rs arbitrary: st)
  case Nil
  then show ?case by simp
next
  case (Cons x rs)
  obtain e cookie r where x: "x = (e, cookie, r)" by (cases x)
  from handle_keeps_unbound [OF Cons.prems, of e cookie r] Cons.IH x
  show ?case by simp
qed

lemma delete_account_destroys:
  assumes "status (snd (delete_account e st (Some t))) = 200"
  shows "sessions (fst (delete_account e st (Some t))) t = None
       \<and> next_sid (fst (delete_account e st (Some t))) = next_sid st
       \<and> sessions st t \<noteq> None"
  using assms
  by (auto simp add: delete_account_def call_defs Let_def session_destroy_def
        session_user_def json_res_def
        split: option.splits sum.splits if_splits prod.splits)

lemma sessions_drawn_handle:
  assumes "sessions_drawn st"
  shows "sessions_drawn (fst (handle e st cookie r))"
  using assms unfolding sessions_drawn_def
  by (cases r)
     (auto simp add: route_defs call_defs column_defs Let_def session_set_user_def
        session_destroy_def session_user_def less_Suc_eq
        split: option.splits sum.splits if_splits prod.splits)

text \<open>
  C8, as stated, fails on the routes that are not gated. Alice deletes her account with
  the session 0; the session is then bound to no user, and a request for the list of
  players that carries the cookie 0 is answered 200 with the rows, not 401: only the
  six routes registered with \<open>isAuthenticated\<close> look at the session.
\<close>

theorem old_token_ungated_counterexample:
  "status (snd (delete_account example_env example_state (Some 0))) = 200
   \<and> session_user (fst (delete_account example_env example_state (Some 0))) (Some 0) = None
   \<and> handle example_env (fst (delete_account example_env example_state (Some 0)))
        (Some 0) GetPlayers =
      (fst (delete_account example_env example_state (Some 0)),
       json_res 200 (JArr [toJSON bob]))
   \<and> spec_status Unauthenticated \<noteq> 200"
  by (simp add: example_delete get_players_def findAll_def query_def example_db_up await_def
      try_catch_def json_res_def session_user_def)

text \<open>
  C8, amended. A request without a bound session does not get past \<open>isAuthenticated\<close>:
  whatever the handler \<open>next\<close> is, the answer is 401 "Not authenticated"
  (Unauthenticated) and the state is untouched; so it is for each of the six gated
  routes. And once delete-account has answered 200 for the session \<open>t\<close>, in a state whose
  session ids were all drawn from the counter, then after any further requests \<open>rs\<close>,
  whatever their cookies, \<open>t\<close> is bound to no user, so that every request that carries
  it is anonymous, and every gated request that carries it is answered 401.
\<close>

theorem gate_unauthenticated:
  "(session_user st cookie = None \<longrightarrow>
      isAuthenticated st cookie next = (st, json_res 401 (error_body ''Not authenticated'')))
 \<and> (session_user st cookie = None \<longrightarrow> gated r \<longrightarrow>
      handle e st cookie r = (st, json_res 401 (error_body ''Not authenticated'')))
 \<and> (sessions_drawn st \<longrightarrow> status (snd (delete_account e st (Some t))) = 200 \<longrightarrow>
      st'' = run (fst (delete_account e st (Some t))) rs \<longrightarrow>
      session_user st'' (Some t) = None \<and>
      (gated r \<longrightarrow>
         handle e' st'' (Some t) r = (st'', json_res 401 (error_body ''Not authenticated''))))"
proof (intro conjI impI)
  assume "session_user st cookie = None"
  then show "isAuthenticated st cookie next =
      (st, json_res 401 (error_body ''Not authenticated''))"
    by (simp add: isAuthenticated_def)
next
  assume "session_user st cookie = None" and "gated r"
  then show "handle e st cookie r = (st, json_res 401 (error_body ''Not authenticated''))"
    by (rule gated_unauthenticated)
next
  assume drawn: "sessions_drawn st"
    and ok: "status (snd (delete_account e st (Some t))) = 200"
    and st'': "st'' = run (fst (delete_account e st (Some t))) rs"
  from delete_account_destroys [OF ok] drawn
  have "sessions (fst (delete_account e st (Some t))) t = None"
    and "t < next_sid (fst (delete_account e st (Some t)))"
    by (auto simp add: sessions_drawn_def)
  from run_keeps_unbound [OF this, of rs] st''
  show anon: "session_user st'' (Some t) = None"
    by (simp add: session_user_def)
  assume "gated r"
  with anon show "handle e' st'' (Some t) r =
      (st'', json_res 401 (error_body ''Not authenticated''))"
    by (rule gated_unauthenticated)
qed

theorem gate_unauthenticated_witness:
  "handle example_env example_state None CurrentUser =
     (example_state, json_res 401 (error_body ''Not authenticated''))
   \<and> status (snd (delete_account example_env example_state (Some 0))) = 200
   \<and> session_user
        (run (fst (delete_account example_env example_state (Some 0)))
           [(example_env, Some 0, Login ''bob'' ''hunter2'')]) (Some 0) = None
   \<and> status (snd (handle example_env
        (run (fst (delete_account example_env example_state (Some 0)))
           [(example_env, Some 0, Login ''bob'' ''hunter2'')]) (Some 0) CurrentUser)) = 401"
proof -
  have ok: "status (snd (delete_account example_env example_state (Some 0))) = 200"
    by (simp add: example_delete json_res_def)
  have none: "session_user example_state None = None"
    by (simp add: session_user_def)
  note g = gate_unauthenticated [where r = CurrentUser]
  from g [where st = example_state and cookie = None and e = example_env,
      THEN conjunct2, THEN conjunct1] none
  have 1: "handle example_env example_state None CurrentUser =
     (example_state, json_res 401 (error_body ''Not authenticated''))"
    by simp
  from g [where st = example_state and e = example_env and t = 0
        and rs = "[(example_env, Some 0, Login ''bob'' ''hunter2'')]" and e' = example_env
        and st'' = "run (fst (delete_account example_env example_state (Some 0)))
           [(example_env, Some 0, Login ''bob'' ''hunter2'')]",
      THEN conjunct2, THEN conjunct2] example_drawn ok
  have 2: "session_user
        (run (fst (delete_account example_env example_state (Some 0)))
           [(example_env, Some 0, Login ''bob'' ''hunter2'')]) (Some 0) = None"
    and 3: "handle example_env
        (run (fst (delete_account example_env example_state (Some 0)))
           [(example_env, Some 0, Login ''bob'' ''hunter2'')]) (Some 0) CurrentUser =
        (run (fst (delete_account example_env example_state (Some 0)))
           [(example_env, Some 0, Login ''bob'' ''hunter2'')],
         json_res 401 (error_body ''Not authenticated''))"
    by simp_all
  from 1 ok 2 3 show ?thesis by (simp add: json_res_def)
qed

subsection \<open>Profile updates\<close>

text \<open>
  C9, as stated, fails on a field that is supplied but not stored, in three ways. Alice's
  session sends \<open>{displayName: ""}\<close>: the route answers 200 and her row is what it was,
  with \<open>display_name = "Alice"\<close> and not the supplied \<open>""\<close>, because
  \<open>displayName || player.display_name\<close> takes the stored value for every falsy
  \<open>displayName\<close>. It sends an email that \<open>isEmail\<close> rejects: the validation throws, the
  answer is 500 and nothing is written. It sends a theme of 21 characters: the column
  \<open>STRING(20)\<close> rejects it, the answer is 500 and nothing is written.
\<close>

theorem update_profile_rejected_counterexample:
  "status (snd (update_profile example_env example_state (Some 0) None (Some '''') None None)) = 200
   \<and> find (\<lambda>r. player_id r = 1)
        (players (fst (update_profile example_env example_state (Some 0) None (Some '''') None None)))
      = Some alice
   \<and> display_name alice = Some ''Alice''
   \<and> update_profile example_env example_state (Some 0) (Some ''not an email'') None None None =
        (example_state, json_res 500 (error_body ''Failed to update profile''))
   \<and> update_profile example_env example_state (Some 0) None None
          (Some ''abcdefghijklmnopqrstu'') None =
        (example_state, json_res 500 (error_body ''Failed to update profile''))"
proof -
  have a: "update_profile example_env example_state (Some 0) None (Some '''') None None =
      (example_state, json_res 200 (success_message ''Profile updated successfully''))"
    using example_find_alice_id example_session
    by (simp add: update_profile_def isAuthenticated_def findOne_id_up example_db_up await_def
        try_catch_def save_def query_def js_or_def js_or_str_def truthy_def
        validate_changed_email_def changed_varchar_opt_def changed_varchar_def
        update_where_id_def)
       (simp add: example_state_def alice_def bob_def new_player_def)
  have b: "update_profile example_env example_state (Some 0) (Some ''not an email'') None None None =
        (example_state, json_res 500 (error_body ''Failed to update profile''))"
    using example_find_alice_id example_session
    by (simp add: update_profile_def isAuthenticated_def findOne_id_up example_db_up await_def
        try_catch_def js_or_def truthy_def validate_changed_email_def validate_email_def)
       (simp add: example_env_def alice_def new_player_def)
  have c: "update_profile example_env example_state (Some 0) None None
          (Some ''abcdefghijklmnopqrstu'') None =
        (example_state, json_res 500 (error_body ''Failed to update profile''))"
    using example_find_alice_id example_session
    by (simp add: update_profile_def isAuthenticated_def findOne_id_up example_db_up await_def
        try_catch_def js_or_def js_or_str_def truthy_def validate_changed_email_def
        changed_varchar_opt_def changed_varchar_def varchar_column_def)
       (simp add: alice_def new_player_def)
  show ?thesis
    using example_find_alice_id
    by (simp add: a b c json_res_def) (simp add: alice_def new_player_def)
qed

text \<open>
  C9, amended. For an authenticated request whose session names the row \<open>p\<close>, when the
  database answers, a supplied non-empty email passes \<open>isEmail\<close>, and the supplied
  non-empty email, displayName and theme have at most 255, 100 and 20 characters: the
  route answers 200, and the row becomes \<open>p'\<close>, which is \<open>p\<close> with each of email,
  display_name, theme and avatar set to the supplied value when that value is present
  and not empty, and left as it was when the field is absent or empty. Every other
  column of the row, every other row and the session store are unchanged. So an update
  that supplies only \<open>theme\<close> leaves email, display_name and avatar as they were.
\<close>

theorem update_profile_sets:
  assumes "db_up e" and "session_user st cookie = Some (i, n)"
    and "find (\<lambda>r. player_id r = i) (players st) = Some p"
    and "truthy email' \<longrightarrow> isEmail e (str email') \<and> length (str email') \<le> 255"
    and "truthy displayName' \<longrightarrow> length (str displayName') \<le> 100"
    and "truthy theme' \<longrightarrow> length (str theme') \<le> 20"
    and "p' = p\<lparr>email := (if truthy email' then email' else email p),
                 display_name := (if truthy displayName' then displayName' else display_name p),
                 theme := (if truthy theme' then str theme' else theme p),
                 avatar := (if truthy avatar' then avatar' else avatar p)\<rparr>"
    and "st' = fst (update_profile e st cookie email' displayName' theme' avatar')"
  shows "snd (update_profile e st cookie email' displayName' theme' avatar') =
           json_res 200 (success_message ''Profile updated successfully'')
       \<and> find (\<lambda>r. player_id r = i) (players st') = Some p'
       \<and> players st' = map (\<lambda>r. if player_id r = i
             then r\<lparr>email := email p', display_name := display_name p',
                    theme := theme p', avatar := avatar p'\<rparr>
             else r) (players st)
       \<and> points p' = points p \<and> coins p' = coins p \<and> password p' = password p
       \<and> progress p' = progress p \<and> username p' = username p \<and> player_id p' = player_id p
       \<and> networking_completed p' = networking_completed p
       \<and> programming_completed p' = programming_completed p
       \<and> systemunit_completed p' = systemunit_completed p
       \<and> networking_hard_perfect p' = networking_hard_perfect p
       \<and> programming_game_unlocked p' = programming_game_unlocked p
       \<and> sessions st' = sessions st"
proof -
  have id: "player_id p = i"
    using assms(3) by (auto simp add: find_Some_iff)
  have f: "js_or email' (email p) = email p'"
    "js_or displayName' (display_name p) = display_name p'"
    "js_or_str theme' (theme p) = theme p'"
    "js_or avatar' (avatar p) = avatar p'"
    using assms(7)
    by (simp_all add: js_or_def js_or_str_def truthy_def str_def split: option.splits)
  have v: "validate_changed_email e (email p) (email p') = Inr ()"
    using assms(4,7)
    by (auto simp add: validate_changed_email_def validate_email_def truthy_def str_def
        split: option.splits)
  have w: "changed_varchar_opt 255 (email p) (email p') = Inr (email p')"
    "changed_varchar_opt 100 (display_name p) (display_name p') = Inr (display_name p')"
    "changed_varchar 20 (theme p) (theme p') = Inr (theme p')"
    using assms(4,5,6,7)
    by (auto simp add: changed_varchar_opt_def changed_varchar_def varchar_column_opt_def
        varchar_column_fits await_def truthy_def str_def split: option.splits)
  let ?f = "\<lambda>r. r\<lparr>email := email p', display_name := display_name p',
                    theme := theme p', avatar := avatar p'\<rparr>"
  have run: "update_profile e st cookie email' displayName' theme' avatar' =
      (st\<lparr>players := update_where_id i ?f (players st)\<rparr>,
       json_res 200 (success_message ''Profile updated successfully''))"
    using assms(1-3) id
    by (simp add: update_profile_def isAuthenticated_def findOne_id_up await_def try_catch_def
        save_def query_def f v w)
  have "find (\<lambda>r. player_id r = i) (update_where_id i ?f (players st)) = Some (?f p)"
    using assms(3) by (intro find_update_where_id) simp_all
  moreover have "?f p = p'"
    using assms(7) by simp
  ultimately show ?thesis
    using run assms(7,8) by (simp add: update_where_id_def)
qed

theorem update_profile_sets_witness:
  "snd (update_profile example_env example_state (Some 0) None None (Some ''dark'') None) =
     json_res 200 (success_message ''Profile updated successfully'')
   \<and> find (\<lambda>r. player_id r = 1)
       (players (fst (update_profile example_env example_state (Some 0) None None (Some ''dark'') None)))
     = Some (alice\<lparr>theme := ''dark''\<rparr>)
   \<and> snd (update_profile example_env example_state (Some 0) (Some ''a@b.org'') (Some ''Al'') None None) =
     json_res 200 (success_message ''Profile updated successfully'')
   \<and> find (\<lambda>r. player_id r = 1)
       (players (fst (update_profile example_env example_state (Some 0)
          (Some ''a@b.org'') (Some ''Al'') None None)))
     = Some (alice\<lparr>email := Some ''a@b.org'', display_name := Some ''Al''\<rparr>)"
proof -
  have a: "alice\<lparr>theme := ''dark''\<rparr> = alice
      \<lparr>email := (if truthy None then None else email alice),
       display_name := (if truthy None then None else display_name alice),
       theme := (if truthy (Some ''dark'') then str (Some ''dark'') else theme alice),
       avatar := (if truthy None then None else avatar alice)\<rparr>"
    by (simp add: truthy_def str_def)
  have b: "alice\<lparr>email := Some ''a@b.org'', display_name := Some ''Al''\<rparr> = alice
      \<lparr>email := (if truthy (Some ''a@b.org'') then Some ''a@b.org'' else email alice),
       display_name := (if truthy (Some ''Al'') then Some ''Al'' else display_name alice),
       theme := (if truthy None then str None else theme alice),
       avatar := (if truthy None then None else avatar alice)\<rparr>"
    by (simp add: truthy_def str_def)
  have h1: "truthy None \<longrightarrow> isEmail example_env (str None) \<and> length (str None) \<le> 255"
    "truthy None \<longrightarrow> length (str None) \<le> 100"
    "truthy (Some ''dark'') \<longrightarrow> length (str (Some ''dark'')) \<le> 20"
    by (simp_all add: truthy_def str_def)
  have h2: "truthy (Some ''a@b.org'') \<longrightarrow>
      isEmail example_env (str (Some ''a@b.org'')) \<and> length (str (Some ''a@b.org'')) \<le> 255"
    "truthy (Some ''Al'') \<longrightarrow> length (str (Some ''Al'')) \<le> 100"
    "truthy None \<longrightarrow> length (str None) \<le> 20"
    by (simp_all add: truthy_def str_def example_env_def)
  note u = update_profile_sets [OF example_db_up example_session example_find_alice_id h1 a refl]
  note w = update_profile_sets [OF example_db_up example_session example_find_alice_id h2 b refl]
  from u [THEN conjunct1] u [THEN conjunct2, THEN conjunct1]
    w [THEN conjunct1] w [THEN conjunct2, THEN conjunct1]
  show ?thesis by (simp only: simp_thms)
qed

subsection \<open>Account creation\<close>

lemma filter_distinct_key:
  "distinct (map f xs) \<Longrightarrow> k \<in> set (map f xs) \<Longrightarrow> length (filter (\<lambda>r. f r = k) xs) = 1"
proof (induction xs)
  case Nil
  then show ?case by simp
next
  case (Cons x xs)
  show ?case
  proof (cases "f x = k")
    case True
    with Cons.prems have "filter (\<lambda>r. f r = k) xs = []"
      by (auto simp add: filter_empty_conv image_iff)
    with True show ?thesis by simp
  next
    case False
    with Cons show ?thesis by auto
  qed
qed

text \<open>
  C4, as stated, fails on the kind of the failure. A second create-player for
  \<open>alice\<close> is answered 500 "Failed to create player": the status of Internal, not a
  status of Conflict, and the very response that a create-player for a free username
  gets when the database is down. The handler has one catch for everything
  \<open>Player.create\<close> throws. The table is as it was; the failed insert has drawn the id 3
  from the sequence.
\<close>

theorem create_player_taken_counterexample:
  "status (snd (create_player example_env example_state (Some ''alice'') (Some ''other'') None))
     \<noteq> spec_status Conflict
   \<and> create_player example_env example_state (Some ''alice'') (Some ''other'') None
     = (example_state\<lparr>next_id := 4\<rparr>,
        json_res (spec_status Internal) (error_body ''Failed to create player''))
   \<and> snd (create_player example_env example_state (Some ''alice'') (Some ''other'') None)
     = snd (create_player (example_env\<lparr>db_up := False\<rparr>) example_state
              (Some ''carol'') (Some ''other'') None)"
  by (simp add: create_player_def truthy_def str_def Player_create_def insert_values_def
      validate_email_def varchar_column_def varchar_column_opt_def
      query_def await_def try_catch_def json_res_def example_env_def example_state_def
      alice_def bob_def new_player_def Let_def)

text \<open>
  C4, amended. A create-player call whose username is already in the table (and so
  fits its column) leaves the table and the sessions as they were, in every
  environment; the sequence of ids stays or advances by one, and it advances whenever
  the insert reaches the unique constraint. With a non-empty username and password the
  call is answered 500 "Failed to create player", the answer to any failure of storage;
  otherwise 400. When the usernames of the table are distinct, exactly one row with
  that username is in the table afterwards.
\<close>

theorem create_player_taken:
  assumes "u \<in> set (map username (players st))" and "username' = Some u"
    and "length u \<le> 100"
    and "st' = fst (create_player e st username' password' email')"
  shows "players st' = players st \<and> sessions st' = sessions st \<and> next_sid st' = next_sid st
       \<and> (next_id st' = next_id st \<or> next_id st' = next_id st + 1)
       \<and> (u \<noteq> [] \<and> truthy password' \<longrightarrow>
            snd (create_player e st username' password' email') =
              json_res 500 (error_body ''Failed to create player''))
       \<and> (u = [] \<or> \<not> truthy password' \<longrightarrow>
            snd (create_player e st username' password' email') =
              json_res 400 (error_body ''Username and password are required''))
       \<and> (distinct (map username (players st)) \<longrightarrow>
            length (filter (\<lambda>r. username r = u) (players st')) = 1)
       \<and> (db_up e \<and> u \<noteq> [] \<and> truthy password'
            \<and> length (bcrypt_hash e (str password')) \<le> 100
            \<and> (case email' of None \<Rightarrow> True | Some m \<Rightarrow> isEmail e m \<and> length m \<le> 255) \<longrightarrow>
            next_id st' = next_id st + 1)"
proof -
  have frame: "players st' = players st \<and> sessions st' = sessions st
      \<and> next_sid st' = next_sid st
      \<and> (next_id st' = next_id st \<or> next_id st' = next_id st + 1)"
    using assms
    by (auto simp add: create_player_def truthy_def str_def Player_create_def insert_values_def
        validate_email_def varchar_column_fits varchar_column_opt_def
        query_def await_def try_catch_def Let_def split: option.splits sum.splits prod.splits)
  moreover have "u \<noteq> [] \<and> truthy password' \<longrightarrow>
            snd (create_player e st username' password' email') =
              json_res 500 (error_body ''Failed to create player'')"
    using assms(1-3)
    by (auto simp add: create_player_def truthy_def str_def Player_create_def insert_values_def
        validate_email_def varchar_column_fits varchar_column_opt_def
        query_def await_def try_catch_def Let_def split: option.splits sum.splits prod.splits)
  moreover have "u = [] \<or> \<not> truthy password' \<longrightarrow>
            snd (create_player e st username' password' email') =
              json_res 400 (error_body ''Username and password are required'')"
    using assms(2)
    by (auto simp add: create_player_def truthy_def)
  moreover have "distinct (map username (players st)) \<longrightarrow>
            length (filter (\<lambda>r. username r = u) (players st')) = 1"
    using assms(1) frame by (simp add: filter_distinct_key)
  moreover have "db_up e \<and> u \<noteq> [] \<and> truthy password'
            \<and> length (bcrypt_hash e (str password')) \<le> 100
            \<and> (case email' of None \<Rightarrow> True | Some m \<Rightarrow> isEmail e m \<and> length m \<le> 255) \<longrightarrow>
            next_id st' = next_id st + 1"
    using assms
    by (auto simp add: create_player_def truthy_def str_def Player_create_def insert_values_def
        validate_email_def varchar_column_fits varchar_column_opt_def
        query_def await_def try_catch_def Let_def split: option.splits sum.splits prod.splits)
  ultimately show ?thesis by blast
qed

theorem create_player_taken_witness:
  "create_player example_env example_state (Some ''alice'') (Some ''other'') None =
     (example_state\<lparr>next_id := 4\<rparr>, json_res 500 (error_body ''Failed to create player''))
   \<and> length (filter (\<lambda>r. username r = ''alice'')
        (players (fst (create_player example_env example_state
           (Some ''alice'') (Some ''other'') None)))) = 1"
proof -
  have in_table: "''alice'' \<in> set (map username (players example_state))"
    by (simp add: example_state_def alice_def new_player_def)
  have dist: "distinct (map username (players example_state))"
    by (simp add: example_state_def alice_def bob_def new_player_def)
  have len: "length ''alice'' \<le> 100" by simp
  have run: "create_player example_env example_state (Some ''alice'') (Some ''other'') None =
     (example_state\<lparr>next_id := 4\<rparr>, json_res 500 (error_body ''Failed to create player''))"
    by (simp add: create_player_def truthy_def str_def Player_create_def insert_values_def
      validate_email_def varchar_column_def varchar_column_opt_def
      query_def await_def try_catch_def example_env_def example_state_def
      alice_def bob_def new_player_def Let_def)
  note c = create_player_taken [OF in_table refl len refl, of example_env "Some ''other''" None]
  from c [THEN conjunct2, THEN conjunct2, THEN conjunct2, THEN conjunct2, THEN conjunct2,
      THEN conjunct2, THEN conjunct1] dist
  have "length (filter (\<lambda>r. username r = ''alice'')
        (players (fst (create_player example_env example_state
           (Some ''alice'') (Some ''other'') None)))) = 1"
    by blast
  with run show ?thesis by (simp only: simp_thms)
qed

subsection \<open>Password hashes in responses\<close>

lemma has_password_toJSON: "has_field ''password'' (toJSON p)"
  by (simp add: toJSON_def)

lemma password_of_toJSON: "json_field ''password'' (toJSON p) = Some (JStr (password p))"
  by (simp add: toJSON_def json_field_def)

lemma no_password_profile: "\<not> has_field ''password'' (toJSON_profile p)"
  by (simp add: toJSON_profile_def json_opt_def split: option.splits)

lemma no_password_plain:
  "\<not> has_field ''password'' (error_body msg)"
  "\<not> has_field ''password'' (success_message msg)"
  by (simp_all add: error_body_def success_message_def)

text \<open>
  C1, as stated, fails on the two routes it names first, and on get-by-username. The
  200 response to create-player carries the new row under \<open>player\<close>, with the field
  \<open>password\<close> holding the hash just stored; the 200 response to reward carries the
  updated row, hash included; the 200 response to get-by-username is the row itself,
  whose field \<open>password\<close> is the stored hash.
\<close>

theorem password_returned_counterexample:
  "snd (create_player example_env example_state (Some ''carol'') (Some ''pw'') None) =
     json_res 200 (JObj [(''success'', JBool True),
       (''player'', toJSON (new_player 3 ''carol'' ''$2a$10$wp'' None))])
   \<and> has_field ''password''
       (body (snd (create_player example_env example_state (Some ''carol'') (Some ''pw'') None)))
   \<and> status (snd (reward example_env example_state (Some ''bob'') (Some 10) (Some 3))) = 200
   \<and> has_field ''password''
       (body (snd (reward example_env example_state (Some ''bob'') (Some 10) (Some 3))))
   \<and> snd (get_player example_env example_state ''alice'') = json_res 200 (toJSON alice)
   \<and> json_field ''password'' (body (snd (get_player example_env example_state ''alice'')))
       = Some (JStr (password alice))"
proof -
  have g: "snd (get_player example_env example_state ''alice'') = json_res 200 (toJSON alice)"
    using example_find_alice
    by (simp add: get_player_def findOne_username_up example_db_up await_def try_catch_def)
  have c: "snd (create_player example_env example_state (Some ''carol'') (Some ''pw'') None) =
     json_res 200 (JObj [(''success'', JBool True),
       (''player'', toJSON (new_player 3 ''carol'' ''$2a$10$wp'' None))])"
    by (simp add: create_player_def truthy_def str_def Player_create_def insert_values_def
      validate_email_def varchar_column_def varchar_column_opt_def
      query_def await_def try_catch_def example_env_def example_state_def
      alice_def bob_def new_player_def Let_def)
  have r: "snd (reward example_env example_state (Some ''bob'') (Some 10) (Some 3)) =
     json_res 200 (JObj [(''success'', JBool True), (''message'', JStr ''Reward applied''),
       (''player'', toJSON (bob\<lparr>points := 10, coins := 3\<rparr>))])"
    using example_find_bob
    by (simp add: reward_def truthy_def str_def findOne_username_up example_db_up await_def
        try_catch_def or_zero_def save_def query_def Let_def)
       (simp add: bob_def new_player_def or_zero_def Let_def await_def save_def query_def
          example_db_up changed_integer_def integer_column_def int4_def)
  show ?thesis
    by (simp add: c r g json_res_def has_password_toJSON password_of_toJSON)
qed

lemma no_password_unless_rows:
  assumes "\<not> returns_rows r \<or> status (snd (handle e st cookie r)) \<noteq> 200"
  shows "\<not> has_field ''password'' (body (snd (handle e st cookie r)))"
  using assms
  by (cases r)
     (auto simp add: route_defs call_defs column_defs Let_def json_res_def no_password_plain
        no_password_profile
        split: option.splits sum.splits if_splits prod.splits)

text \<open>
  C1, amended. A response has no \<open>password\<close> field at any depth unless it is a 200
  response of a route that answers with rows (create-player, the three lists,
  get-by-username, reward). So the responses of login, current-user, update-profile,
  upload-avatar, change-password, delete-account, logout-others, update-coins and
  update-progress never have one, and neither has any error response. A 200 response of
  get-by-username is the JSON of the row found, and a 200 response of each of the three
  list routes is the array of the JSON of every row; the JSON of a row \<open>q\<close> has the field
  \<open>password\<close>, and its value is the stored hash \<open>password q\<close>.
\<close>

theorem password_field_absent:
  "(\<not> returns_rows r \<or> status (snd (handle e st cookie r)) \<noteq> 200 \<longrightarrow>
      \<not> has_field ''password'' (body (snd (handle e st cookie r))))
 \<and> (status (snd (get_player e st u)) = 200 \<longrightarrow>
      (\<exists>p. find (\<lambda>r. username r = u) (players st) = Some p
         \<and> body (snd (get_player e st u)) = toJSON p
         \<and> json_field ''password'' (body (snd (get_player e st u))) = Some (JStr (password p))))
 \<and> (status (snd (get_players e st)) = 200 \<longrightarrow>
      body (snd (get_players e st)) = JArr (map toJSON (players st)))
 \<and> (status (snd (get_posts e st)) = 200 \<longrightarrow>
      body (snd (get_posts e st)) = JArr (map toJSON (players st)))
 \<and> (status (snd (players_route e st)) = 200 \<longrightarrow>
      body (snd (players_route e st)) = JArr (map toJSON (players st)))
 \<and> json_field ''password'' (toJSON q) = Some (JStr (password q))
 \<and> has_field ''password'' (toJSON q)"
proof (intro conjI impI)
  assume "\<not> returns_rows r \<or> status (snd (handle e st cookie r)) \<noteq> 200"
  then show "\<not> has_field ''password'' (body (snd (handle e st cookie r)))"
    by (rule no_password_unless_rows)
next
  assume "status (snd (get_player e st u)) = 200"
  then show "\<exists>p. find (\<lambda>r. username r = u) (players st) = Some p
         \<and> body (snd (get_player e st u)) = toJSON p
         \<and> json_field ''password'' (body (snd (get_player e st u))) = Some (JStr (password p))"
    by (auto simp add: get_player_def call_defs json_res_def password_of_toJSON
        split: option.splits if_splits)
next
  assume "status (snd (get_players e st)) = 200"
  then show "body (snd (get_players e st)) = JArr (map toJSON (players st))"
    by (auto simp add: get_players_def call_defs json_res_def split: if_splits)
next
  assume "status (snd (get_posts e st)) = 200"
  then show "body (snd (get_posts e st)) = JArr (map toJSON (players st))"
    by (auto simp add: get_posts_def call_defs json_res_def split: if_splits)
next
  assume "status (snd (players_route e st)) = 200"
  then show "body (snd (players_route e st)) = JArr (map toJSON (players st))"
    by (auto simp add: players_route_def call_defs json_res_def split: if_splits)
next
  show "json_field ''password'' (toJSON q) = Some (JStr (password q))"
    by (rule password_of_toJSON)
next
  show "has_field ''password'' (toJSON q)"
    by (rule has_password_toJSON)
qed

theorem password_field_absent_witness:
  "\<not> has_field ''password'' (body (snd (handle example_env example_state (Some 0) CurrentUser)))
   \<and> body (snd (handle example_env example_state (Some 0) CurrentUser)) = toJSON_profile alice
   \<and> \<not> has_field ''password''
        (body (snd (handle example_env example_state None (Reward None None None))))
   \<and> body (snd (get_player example_env example_state ''alice'')) = toJSON alice
   \<and> body (snd (get_players example_env example_state)) = JArr [toJSON alice, toJSON bob]
   \<and> body (snd (get_posts example_env example_state)) = JArr [toJSON alice, toJSON bob]
   \<and> body (snd (players_route example_env example_state)) = JArr [toJSON alice, toJSON bob]
   \<and> json_field ''password'' (toJSON alice) = Some (JStr ''$2a$10$terces'')"
proof -
  have cu: "handle example_env example_state (Some 0) CurrentUser =
      (example_state, json_res 200 (toJSON_profile alice))"
    using example_find_alice_id example_session
    by (simp add: current_user_def isAuthenticated_def findOne_id_up example_db_up await_def
        try_catch_def)
  have rw: "status (snd (handle example_env example_state None (Reward None None None))) \<noteq> 200"
    by (simp add: reward_def truthy_def try_catch_def json_res_def)
  have gp: "status (snd (get_player example_env example_state ''alice'')) = 200"
    using example_find_alice
    by (simp add: get_player_def findOne_username_up example_db_up await_def try_catch_def
        json_res_def)
  have ga: "status (snd (get_players example_env example_state)) = 200"
    "status (snd (get_posts example_env example_state)) = 200"
    "status (snd (players_route example_env example_state)) = 200"
    by (simp_all add: get_players_def get_posts_def players_route_def findAll_def query_def
        example_db_up await_def try_catch_def json_res_def)
  have rows: "players example_state = [alice, bob]"
    by (simp add: example_state_def)
  have pw: "password alice = ''$2a$10$terces''"
    by (simp add: alice_def new_player_def)
  note p = password_field_absent [where e = example_env and st = example_state]
  from p [where r = CurrentUser and cookie = "Some 0", THEN conjunct1]
  have 1: "\<not> has_field ''password''
      (body (snd (handle example_env example_state (Some 0) CurrentUser)))"
    by simp
  from p [where r = "Reward None None None" and cookie = None, THEN conjunct1] rw
  have 2: "\<not> has_field ''password''
      (body (snd (handle example_env example_state None (Reward None None None))))"
    by blast
  from p [where u = "''alice''", THEN conjunct2, THEN conjunct1] gp example_find_alice
  have 3: "body (snd (get_player example_env example_state ''alice'')) = toJSON alice"
    by auto
  from p [THEN conjunct2, THEN conjunct2, THEN conjunct1] ga rows
  have 4: "body (snd (get_players example_env example_state)) = JArr [toJSON alice, toJSON bob]"
    by simp
  from p [THEN conjunct2, THEN conjunct2, THEN conjunct2, THEN conjunct1] ga rows
  have 5: "body (snd (get_posts example_env example_state)) = JArr [toJSON alice, toJSON bob]"
    by simp
  from p [THEN conjunct2, THEN conjunct2, THEN conjunct2, THEN conjunct2, THEN conjunct1] ga rows
  have 6: "body (snd (players_route example_env example_state)) = JArr [toJSON alice, toJSON bob]"
    by simp
  from p [where q = alice, THEN conjunct2, THEN conjunct2, THEN conjunct2, THEN conjunct2,
      THEN conjunct2, THEN conjunct1] pw
  have 7: "json_field ''password'' (toJSON alice) = Some (JStr ''$2a$10$terces'')"
    by simp
  from 1 2 3 4 5 6 7 cu show ?thesis by (simp add: json_res_def)
qed

subsection \<open>Invariants of the state\<close>

text \<open>
  The two conditions on the state that the theorems above assume are kept by every
  request: session ids below the counter (\<open>sessions_drawn_handle\<close>), which holds of a
  server that has just started, and distinct usernames.
\<close>

lemma sessions_drawn_start: "sessions st = Map.empty \<Longrightarrow> sessions_drawn st"
  by (simp add: sessions_drawn_def)

lemma sessions_drawn_run: "sessions_drawn st \<Longrightarrow> sessions_drawn (run st rs)"
proof (induction rs arbitrary: st)
  case Nil
  then show ?case by simp
next
  case (Cons x rs)
  obtain e cookie r where "x = (e, cookie, r)" by (cases x)
  with Cons.IH [OF sessions_drawn_handle [OF Cons.prems, of e cookie r]]
  show ?case by simp
qed

lemma usernames_update_where_id:
  "(\<And>r. username (f r) = username r) \<Longrightarrow>
   map username (update_where_id i f rows) = map username rows"
  by (simp add: update_where_id_def)

lemma usernames_update_where_username:
  "(\<And>r. username (f r) = username r) \<Longrightarrow>
   map username (update_where_username u f rows) = map username rows"
  by (simp add: update_where_username_def)

lemma username_new_player: "username (new_player i u pw em) = u"
  by (simp add: new_player_def)

lemma usernames_distinct_handle:
  assumes "distinct (map username (players st))"
  shows "distinct (map username (players (fst (handle e st cookie r))))"
  using assms
  by (cases r)
     (auto simp add: route_defs call_defs column_defs Let_def session_set_user_def
        session_destroy_def usernames_update_where_id usernames_update_where_username
        distinct_map_filter username_new_player image_iff
        split: option.splits sum.splits if_splits prod.splits)

lemma usernames_distinct_run:
  "distinct (map username (players st)) \<Longrightarrow> distinct (map username (players (run st rs)))"
proof (induction rs arbitrary: st)
  case Nil
  then show ?case by simp
next
  case (Cons x rs)
  obtain e cookie r where "x = (e, cookie, r)" by (cases x)
  with Cons.IH [OF usernames_distinct_handle [OF Cons.prems, of e cookie r]]
  show ?case by simp
qed

end
